theory Spec2Isabelle
  imports Main
begin

section \<open>The bootstrap entry point \<^verbatim>\<open>src/main.tsx\<close>\<close>

text \<open>
  \<^verbatim>\<open>main.tsx\<close> is a module body that runs once: it reads the global
  \<^verbatim>\<open>window.__TAURI__\<close>, conditionally calls \<^verbatim>\<open>invoke('init_app')\<close> with a
  \<^verbatim>\<open>.catch\<close> callback, creates a React root on the element with id \<^verbatim>\<open>root\<close>,
  renders a fixed component tree, and registers up to three event listeners.
  The module body is embedded as the function \<open>main\<close> over an explicit state;
  the four arrow functions it creates are embedded as functions of their own,
  and a small model of the host (promise settlement, event dispatch) runs them
  when something happens after startup.
\<close>

subsection \<open>JavaScript values\<close>

text \<open>
  \<^verbatim>\<open>__TAURI__\<close> and \<^verbatim>\<open>import.meta.env\<close> are declared \<^verbatim>\<open>any\<close>, so every
  JavaScript value can stand there. Numbers are the integers and \<open>NaN\<close>, which
  is all that truthiness distinguishes.
\<close>

datatype js_value =
    Undefined
  | Null
  | JBool bool
  | JNum int
  | NaN
  | JStr string
  | JObj "(string \<times> js_value) list"

text \<open>The conversion to a boolean that the operator \<^verbatim>\<open>!\<close> applies to its operand.\<close>

fun js_truthy :: "js_value \<Rightarrow> bool" where
  "js_truthy Undefined = False"
| "js_truthy Null = False"
| "js_truthy (JBool b) = b"
| "js_truthy (JNum n) = (n \<noteq> 0)"
| "js_truthy NaN = False"
| "js_truthy (JStr s) = (s \<noteq> [])"
| "js_truthy (JObj fs) = True"

subsection \<open>The component tree and the toast options (lines 26 to 55)\<close>

record icon_theme =
  primary :: string
  secondary :: string

record toast_type_options =
  iconTheme :: icon_theme

record css_style =
  background :: string
  color :: string
  border :: string

record toast_options =
  duration :: int
  style :: css_style
  success :: toast_type_options
  error :: toast_type_options

definition toastOptions :: toast_options where
  "toastOptions =
     \<lparr> duration = 4000,
       style = \<lparr> background = ''#1e293b'', color = ''#f1f5f9'',
                 border = ''1px solid #334155'' \<rparr>,
       success = \<lparr> iconTheme = \<lparr> primary = ''#10b981'', secondary = ''#f1f5f9'' \<rparr> \<rparr>,
       error = \<lparr> iconTheme = \<lparr> primary = ''#ef4444'', secondary = ''#f1f5f9'' \<rparr> \<rparr> \<rparr>"

text \<open>
  A JSX element: the three wrappers of the source with their children, and the
  \<^verbatim>\<open>Toaster\<close> with its two props \<^verbatim>\<open>position\<close> and \<^verbatim>\<open>toastOptions\<close>.
\<close>

datatype element =
    StrictMode "element list"
  | BrowserRouter "element list"
  | App
  | Toaster string toast_options

definition app_tree :: element where
  "app_tree = StrictMode [BrowserRouter [App, Toaster ''top-right'' toastOptions]]"

text \<open>The props of every \<^verbatim>\<open>Toaster\<close> in a tree, in document order.\<close>

fun toaster_props :: "element \<Rightarrow> (string \<times> toast_options) list" where
  "toaster_props (StrictMode cs) = concat (map toaster_props cs)"
| "toaster_props (BrowserRouter cs) = concat (map toaster_props cs)"
| "toaster_props App = []"
| "toaster_props (Toaster pos opts) = [(pos, opts)]"

subsection \<open>The host: globals, document, promises, listeners, console\<close>

text \<open>
  What the module body reads from its surroundings: the global
  \<^verbatim>\<open>window.__TAURI__\<close> (\<open>Undefined\<close> when the property is missing), the build
  flag \<^verbatim>\<open>import.meta.env.DEV\<close>, and the document, given as the ids of its
  elements in tree order.
\<close>

record host =
  window_TAURI :: js_value
  env_DEV :: js_value
  document :: "string list"

datatype target = Window | Document

text \<open>
  The four arrow functions of the source, by name: the \<^verbatim>\<open>.catch\<close> callback of
  line 17, which takes the rejection's value, and the listeners of lines 59,
  63 and 67, which take an event.
\<close>

datatype rejection_callback = OnInitRejected

datatype listener_callback = OnContextMenu | OnError | OnUnhandledRejection

datatype promise_state = Pending | Fulfilled js_value | Rejected js_value

record promise =
  pstate :: promise_state
  on_rejected :: "rejection_callback option"

text \<open>Every call the fragment makes into its libraries and the host, in order.\<close>

datatype action =
    Invoke string
  | Catch rejection_callback
  | GetElementById string
  | CreateRoot "nat option"
  | Render nat element
  | AddEventListener target string listener_callback
  | ConsoleError "js_value list"
  | ShowContextMenu

text \<open>
  \<open>trace\<close>: the calls made so far. \<open>listeners\<close>: the registered listeners, in
  registration order. \<open>init_promise\<close>: the promise returned by \<^verbatim>\<open>invoke\<close>,
  if it was called. \<open>escaped\<close>: the exceptions that left the fragment's own code
  (the module body or one of its callbacks) uncaught.
\<close>

record state =
  trace :: "action list"
  listeners :: "(target \<times> string \<times> listener_callback) list"
  init_promise :: "promise option"
  escaped :: "js_value list"

definition init_state :: state where
  "init_state = \<lparr> trace = [], listeners = [], init_promise = None, escaped = [] \<rparr>"

definition emit :: "action \<Rightarrow> state \<Rightarrow> state" where
  "emit a s = s\<lparr> trace := trace s @ [a] \<rparr>"

text \<open>The arguments of each \<^verbatim>\<open>console.error\<close> call so far: the diagnostic log.\<close>

fun console :: "action list \<Rightarrow> js_value list list" where
  "console [] = []"
| "console (ConsoleError args # as) = args # console as"
| "console (a # as) = console as"

fun invocations :: "action list \<Rightarrow> string list" where
  "invocations [] = []"
| "invocations (Invoke cmd # as) = cmd # invocations as"
| "invocations (a # as) = invocations as"

fun renders :: "action list \<Rightarrow> (nat \<times> element) list" where
  "renders [] = []"
| "renders (Render n t # as) = (n, t) # renders as"
| "renders (a # as) = renders as"

text \<open>
  \<^verbatim>\<open>invoke(cmd)\<close> of \<^verbatim>\<open>@tauri-apps/api/core\<close> is an async function: it sends
  the command and returns a pending promise, and never throws synchronously.
  \<^verbatim>\<open>.catch(cb)\<close> attaches the rejection callback.
\<close>

definition invoke :: "string \<Rightarrow> state \<Rightarrow> state" where
  "invoke cmd s =
     emit (Invoke cmd) (s\<lparr> init_promise := Some \<lparr> pstate = Pending, on_rejected = None \<rparr> \<rparr>)"

definition promise_catch :: "rejection_callback \<Rightarrow> state \<Rightarrow> state" where
  "promise_catch cb s =
     emit (Catch cb)
       (s\<lparr> init_promise := map_option (\<lambda>p. p\<lparr> on_rejected := Some cb \<rparr>) (init_promise s) \<rparr>)"

text \<open>
  \<^verbatim>\<open>document.getElementById(id)\<close>: the first element with that id (here its
  position in the document), or \<^verbatim>\<open>null\<close>.
\<close>

fun getElementById :: "string list \<Rightarrow> string \<Rightarrow> nat option" where
  "getElementById [] i = None"
| "getElementById (x # xs) i =
     (if x = i then Some 0 else map_option Suc (getElementById xs i))"

text \<open>
  \<^verbatim>\<open>ReactDOM.createRoot(container)\<close> throws when the container is not a DOM
  element, which is the case for \<^verbatim>\<open>null\<close>: the type cast of line 23 is
  erased at run time and checks nothing.
\<close>

definition createRoot :: "nat option \<Rightarrow> js_value + nat" where
  "createRoot container =
     (case container of
        None \<Rightarrow> Inl (JStr ''createRoot(...): Target container is not a DOM element.'')
      | Some n \<Rightarrow> Inr n)"

definition render :: "nat \<Rightarrow> element \<Rightarrow> state \<Rightarrow> state" where
  "render root t s = emit (Render root t) s"

definition addEventListener :: "target \<Rightarrow> string \<Rightarrow> listener_callback \<Rightarrow> state \<Rightarrow> state" where
  "addEventListener tgt ty cb s =
     emit (AddEventListener tgt ty cb) (s\<lparr> listeners := listeners s @ [(tgt, ty, cb)] \<rparr>)"

definition console_error :: "js_value list \<Rightarrow> state \<Rightarrow> state" where
  "console_error args s = emit (ConsoleError args) s"

subsection \<open>The module body (lines 13 to 69)\<close>

datatype outcome = Completed | Threw js_value

definition isTauri :: "host \<Rightarrow> bool" where
  "isTauri h = (window_TAURI h \<noteq> Undefined)"

definition main :: "host \<Rightarrow> outcome \<times> state" where
  "main h =
     (let s1 = (if isTauri h
                then promise_catch OnInitRejected (invoke ''init_app'' init_state)
                else init_state);
          container = getElementById (document h) ''root'';
          s2 = emit (CreateRoot container) (emit (GetElementById ''root'') s1)
      in case createRoot container of
           Inl e \<Rightarrow> (Threw e, s2)
         | Inr root \<Rightarrow>
             (let s3 = render root app_tree s2;
                  s4 = (if \<not> js_truthy (env_DEV h)
                        then addEventListener Document ''contextmenu'' OnContextMenu s3
                        else s3);
                  s5 = addEventListener Window ''error'' OnError s4;
                  s6 = addEventListener Window ''unhandledrejection'' OnUnhandledRejection s5
              in (Completed, s6)))"

subsection \<open>The callbacks\<close>

text \<open>
  An event as the listeners see it: its type, the targets it reaches (a
  \<^verbatim>\<open>contextmenu\<close> event bubbles to the document and the window; \<^verbatim>\<open>error\<close> and
  \<^verbatim>\<open>unhandledrejection\<close> fire at the window), the properties \<^verbatim>\<open>error\<close> and
  \<^verbatim>\<open>reason\<close>, and the flag that \<^verbatim>\<open>preventDefault()\<close> sets.
\<close>

record event =
  ev_type :: string
  ev_targets :: "target list"
  ev_error :: js_value
  ev_reason :: js_value
  defaultPrevented :: bool

text \<open>Line 17 to 19: \<^verbatim>\<open>(error) => { console.error('Failed to initialize Tauri app:', error); }\<close>\<close>

definition on_init_rejected :: "js_value \<Rightarrow> state \<Rightarrow> outcome \<times> state" where
  "on_init_rejected err s =
     (Completed, console_error [JStr ''Failed to initialize Tauri app:'', err] s)"

text \<open>Line 59: \<^verbatim>\<open>(e) => e.preventDefault()\<close>\<close>

definition on_contextmenu :: "event \<Rightarrow> state \<Rightarrow> outcome \<times> event \<times> state" where
  "on_contextmenu e s = (Completed, e\<lparr> defaultPrevented := True \<rparr>, s)"

text \<open>Line 63 to 65: \<^verbatim>\<open>(event) => { console.error('Global error:', event.error); }\<close>\<close>

definition on_error :: "event \<Rightarrow> state \<Rightarrow> outcome \<times> event \<times> state" where
  "on_error e s = (Completed, e, console_error [JStr ''Global error:'', ev_error e] s)"

text \<open>Line 67 to 69: \<^verbatim>\<open>(event) => { console.error('Unhandled promise rejection:', event.reason); }\<close>\<close>

definition on_unhandledrejection :: "event \<Rightarrow> state \<Rightarrow> outcome \<times> event \<times> state" where
  "on_unhandledrejection e s =
     (Completed, e, console_error [JStr ''Unhandled promise rejection:'', ev_reason e] s)"

fun call_rejection :: "rejection_callback \<Rightarrow> js_value \<Rightarrow> state \<Rightarrow> outcome \<times> state" where
  "call_rejection OnInitRejected x s = on_init_rejected x s"

fun call_listener :: "listener_callback \<Rightarrow> event \<Rightarrow> state \<Rightarrow> outcome \<times> event \<times> state" where
  "call_listener OnContextMenu e s = on_contextmenu e s"
| "call_listener OnError e s = on_error e s"
| "call_listener OnUnhandledRejection e s = on_unhandledrejection e s"

subsection \<open>After startup: the host runs the callbacks\<close>

text \<open>
  Dispatching an event calls, in registration order, every listener registered
  for the event's type on a target the event reaches. An exception thrown by a
  listener does not stop the dispatch; the host reports it.
\<close>

fun dispatch :: "(target \<times> string \<times> listener_callback) list \<Rightarrow> event \<Rightarrow> state \<Rightarrow> event \<times> state" where
  "dispatch [] e s = (e, s)"
| "dispatch ((tgt, ty, cb) # ls) e s =
     (if ty = ev_type e \<and> tgt \<in> set (ev_targets e)
      then (case call_listener cb e s of
              (Completed, e', s') \<Rightarrow> dispatch ls e' s'
            | (Threw x, e', s') \<Rightarrow> dispatch ls e' (s'\<lparr> escaped := escaped s' @ [x] \<rparr>))
      else dispatch ls e s)"

definition dispatchEvent :: "event \<Rightarrow> state \<Rightarrow> event \<times> state" where
  "dispatchEvent e s = dispatch (listeners s) e s"

definition contextmenu_event :: event where
  "contextmenu_event =
     \<lparr> ev_type = ''contextmenu'', ev_targets = [Document, Window],
       ev_error = Undefined, ev_reason = Undefined, defaultPrevented = False \<rparr>"

definition error_event :: "js_value \<Rightarrow> event" where
  "error_event x =
     \<lparr> ev_type = ''error'', ev_targets = [Window],
       ev_error = x, ev_reason = Undefined, defaultPrevented = False \<rparr>"

definition unhandledrejection_event :: "js_value \<Rightarrow> event" where
  "unhandledrejection_event r =
     \<lparr> ev_type = ''unhandledrejection'', ev_targets = [Window],
       ev_error = Undefined, ev_reason = r, defaultPrevented = False \<rparr>"

text \<open>
  The module body has run; an exception it threw is uncaught, so the host
  reports it: an \<^verbatim>\<open>error\<close> event at the window, for the listeners registered
  at that moment.
\<close>

definition startup :: "host \<Rightarrow> state" where
  "startup h =
     (case main h of
        (Completed, s) \<Rightarrow> s
      | (Threw x, s) \<Rightarrow> snd (dispatchEvent (error_event x) (s\<lparr> escaped := escaped s @ [x] \<rparr>)))"

datatype settlement = Resolve js_value | Reject js_value

text \<open>
  The host answers \<^verbatim>\<open>init_app\<close>. A promise settles once. A rejection runs
  the attached callback; the promise \<^verbatim>\<open>.catch\<close> returned is then fulfilled
  when the callback returns and rejected, with no handler of its own, when the
  callback throws. A rejection with no callback attached is unhandled as well.
\<close>

definition settle_init :: "settlement \<Rightarrow> state \<Rightarrow> state" where
  "settle_init r s =
     (case init_promise s of
        None \<Rightarrow> s
      | Some p \<Rightarrow>
          (if pstate p \<noteq> Pending then s
           else (case r of
                   Resolve v \<Rightarrow> s\<lparr> init_promise := Some (p\<lparr> pstate := Fulfilled v \<rparr>) \<rparr>
                 | Reject x \<Rightarrow>
                     (let s' = s\<lparr> init_promise := Some (p\<lparr> pstate := Rejected x \<rparr>) \<rparr>
                      in case on_rejected p of
                           None \<Rightarrow> snd (dispatchEvent (unhandledrejection_event x) s')
                         | Some cb \<Rightarrow>
                             (case call_rejection cb x s' of
                                (Completed, s'') \<Rightarrow> s''
                              | (Threw y, s'') \<Rightarrow>
                                  snd (dispatchEvent (unhandledrejection_event y)
                                         (s''\<lparr> escaped := escaped s'' @ [y] \<rparr>)))))))"

text \<open>What can happen after startup, as far as this fragment can observe it.\<close>

datatype occurrence =
    InitSettled settlement
  | ContextMenu
  | UncaughtError js_value
  | UnhandledRejection js_value

fun process :: "occurrence \<Rightarrow> state \<Rightarrow> state" where
  "process (InitSettled r) s = settle_init r s"
| "process ContextMenu s =
     (case dispatchEvent contextmenu_event s of
        (e, s') \<Rightarrow> if defaultPrevented e then s' else emit ShowContextMenu s')"
| "process (UncaughtError x) s = snd (dispatchEvent (error_event x) s)"
| "process (UnhandledRejection r) s = snd (dispatchEvent (unhandledrejection_event r) s)"

definition run :: "occurrence list \<Rightarrow> state \<Rightarrow> state" where
  "run os s = fold process os s"

subsection \<open>Auxiliary predicates and three concrete hosts\<close>

text \<open>An occurrence that settles the \<^verbatim>\<open>init_app\<close> promise.\<close>

fun is_settlement :: "occurrence \<Rightarrow> bool" where
  "is_settlement (InitSettled r) = True"
| "is_settlement p = False"

text \<open>An action that registers an event listener.\<close>

fun is_registration :: "action \<Rightarrow> bool" where
  "is_registration (AddEventListener tgt ty cb) = True"
| "is_registration a = False"

text \<open>
  A desktop production build (the bridge is an object, \<^verbatim>\<open>DEV\<close> is false), a
  browser preview of a development build (no bridge, \<^verbatim>\<open>DEV\<close> is true), and a
  desktop build whose page has no element with id \<^verbatim>\<open>root\<close>.
\<close>

definition desktop_host :: host where
  "desktop_host = \<lparr> window_TAURI = JObj [], env_DEV = JBool False, document = [''root''] \<rparr>"

definition browser_host :: host where
  "browser_host = \<lparr> window_TAURI = Undefined, env_DEV = JBool True, document = [''root''] \<rparr>"

definition bare_host :: host where
  "bare_host = \<lparr> window_TAURI = JObj [], env_DEV = JBool False, document = [''app''] \<rparr>"

section \<open>Properties of the model\<close>

subsection \<open>Projections of the trace\<close>

lemma console_append: "console (xs @ ys) = console xs @ console ys"
  by (induction xs rule: console.induct) simp_all

lemma invocations_append: "invocations (xs @ ys) = invocations xs @ invocations ys"
  by (induction xs rule: invocations.induct) simp_all

lemma renders_append: "renders (xs @ ys) = renders xs @ renders ys"
  by (induction xs rule: renders.induct) simp_all

lemma getElementById_None: "getElementById xs i = None \<longleftrightarrow> i \<notin> set xs"
  by (induction xs) auto

lemma getElementById_Some:
  "getElementById xs i = Some n \<Longrightarrow> n < length xs \<and> xs ! n = i"
  by (induction xs arbitrary: n) (auto split: if_splits)

subsection \<open>The module body in closed form\<close>

lemma main_present:
  assumes "getElementById (document h) ''root'' = Some n"
  shows "main h =
    (Completed,
     \<lparr> trace = (if isTauri h then [Invoke ''init_app'', Catch OnInitRejected] else [])
         @ [GetElementById ''root'', CreateRoot (Some n), Render n app_tree]
         @ (if \<not> js_truthy (env_DEV h)
            then [AddEventListener Document ''contextmenu'' OnContextMenu] else [])
         @ [AddEventListener Window ''error'' OnError,
            AddEventListener Window ''unhandledrejection'' OnUnhandledRejection],
       listeners = (if \<not> js_truthy (env_DEV h)
            then [(Document, ''contextmenu'', OnContextMenu)] else [])
         @ [(Window, ''error'', OnError),
            (Window, ''unhandledrejection'', OnUnhandledRejection)],
       init_promise = (if isTauri h
            then Some \<lparr> pstate = Pending, on_rejected = Some OnInitRejected \<rparr> else None),
       escaped = [] \<rparr>)"
  using assms
  by (simp add: main_def Let_def createRoot_def render_def addEventListener_def emit_def
      promise_catch_def invoke_def init_state_def)

lemma main_absent:
  assumes "getElementById (document h) ''root'' = None"
  shows "main h =
    (Threw (JStr ''createRoot(...): Target container is not a DOM element.''),
     \<lparr> trace = (if isTauri h then [Invoke ''init_app'', Catch OnInitRejected] else [])
         @ [GetElementById ''root'', CreateRoot None],
       listeners = [],
       init_promise = (if isTauri h
            then Some \<lparr> pstate = Pending, on_rejected = Some OnInitRejected \<rparr> else None),
       escaped = [] \<rparr>)"
  using assms
  by (simp add: main_def Let_def createRoot_def emit_def
      promise_catch_def invoke_def init_state_def)

lemma startup_present:
  assumes "getElementById (document h) ''root'' = Some n"
  shows "startup h = snd (main h)"
  by (simp add: startup_def main_present [OF assms])

lemma startup_absent:
  assumes "getElementById (document h) ''root'' = None"
  shows "startup h = (snd (main h)) \<lparr> escaped :=
      [JStr ''createRoot(...): Target container is not a DOM element.''] \<rparr>"
  by (simp add: startup_def main_absent [OF assms] dispatchEvent_def)


subsection \<open>What event processing preserves\<close>

text \<open>
  No listener throws or touches the listeners, the promise or the escaped
  exceptions, and what a dispatch adds to the trace is neither a render nor an
  \<^verbatim>\<open>invoke\<close> call. The same then holds for every occurrence and every run.
\<close>

lemma call_listener_Completed: "fst (call_listener cb e s) = Completed"
  by (cases cb) (simp_all add: on_contextmenu_def on_error_def on_unhandledrejection_def)

lemma call_listener_fields:
  assumes "call_listener cb e s = (r, e', s')"
  shows "listeners s' = listeners s" and "init_promise s' = init_promise s"
    and "escaped s' = escaped s" and "ev_type e' = ev_type e"
    and "ev_targets e' = ev_targets e"
    and "\<exists>zs. trace s' = trace s @ zs \<and> renders zs = [] \<and> invocations zs = []"
  using assms
  by (cases cb; auto simp: on_contextmenu_def on_error_def on_unhandledrejection_def
      console_error_def emit_def)+

lemma dispatch_fields:
  "listeners (snd (dispatch ls e s)) = listeners s \<and>
   init_promise (snd (dispatch ls e s)) = init_promise s \<and>
   escaped (snd (dispatch ls e s)) = escaped s"
proof (induction ls arbitrary: e s)
  case Nil
  show ?case by simp
next
  case (Cons l ls)
  obtain tgt ty cb where l: "l = (tgt, ty, cb)" by (cases l)
  obtain r e' s' where c: "call_listener cb e s = (r, e', s')" by (cases "call_listener cb e s")
  have r: "r = Completed" using call_listener_Completed [of cb e s] c by simp
  show ?case
    using Cons.IH [of e s] Cons.IH [of e' s'] call_listener_fields(1-3) [OF c]
    by (simp add: l c r)
qed

lemma dispatch_trace:
  "\<exists>zs. trace (snd (dispatch ls e s)) = trace s @ zs \<and> renders zs = [] \<and> invocations zs = []"
proof (induction ls arbitrary: e s)
  case Nil
  show ?case by simp
next
  case (Cons l ls)
  obtain tgt ty cb where l: "l = (tgt, ty, cb)" by (cases l)
  obtain r e' s' where c: "call_listener cb e s = (r, e', s')" by (cases "call_listener cb e s")
  have r: "r = Completed" using call_listener_Completed [of cb e s] c by simp
  obtain zs where zs: "trace s' = trace s @ zs" "renders zs = []" "invocations zs = []"
    using call_listener_fields(6) [OF c] by blast
  obtain ys where ys: "trace (snd (dispatch ls e' s')) = trace s' @ ys" "renders ys = []"
      "invocations ys = []"
    using Cons.IH [of e' s'] by blast
  show ?case
  proof (cases "ty = ev_type e \<and> tgt \<in> set (ev_targets e)")
    case True
    have "trace (snd (dispatch (l # ls) e s)) = trace s @ (zs @ ys)"
      using True by (simp add: l c r ys zs)
    moreover have "renders (zs @ ys) = []" "invocations (zs @ ys) = []"
      by (simp_all add: renders_append invocations_append ys zs)
    ultimately show ?thesis by blast
  next
    case False
    then have "dispatch (l # ls) e s = dispatch ls e s"
      by (auto simp: l)
    then show ?thesis using Cons.IH [of e s] by simp
  qed
qed

lemma settle_init_fields:
  "listeners (settle_init r s) = listeners s \<and> escaped (settle_init r s) = escaped s"
  by (cases r; cases "init_promise s"; cases "on_rejected (the (init_promise s))";
      cases "the (on_rejected (the (init_promise s)))")
     (simp_all add: settle_init_def Let_def dispatchEvent_def dispatch_fields
       on_init_rejected_def console_error_def emit_def)

lemma settle_init_trace:
  "\<exists>zs. trace (settle_init r s) = trace s @ zs \<and> renders zs = [] \<and> invocations zs = []"
proof (cases "init_promise s")
  case None
  then show ?thesis by (simp add: settle_init_def)
next
  case (Some p)
  show ?thesis
  proof (cases "pstate p = Pending")
    case False
    then show ?thesis using Some by (simp add: settle_init_def)
  next
    case True
    show ?thesis
    proof (cases r)
      case (Resolve v)
      then show ?thesis using Some True by (simp add: settle_init_def)
    next
      case (Reject x)
      show ?thesis
      proof (cases "on_rejected p")
        case None
        then show ?thesis
          using Some True Reject
            dispatch_trace [of "listeners s" "unhandledrejection_event x"
              "s\<lparr>init_promise := Some (p\<lparr>pstate := Rejected x\<rparr>)\<rparr>"]
          by (simp add: settle_init_def dispatchEvent_def)
      next
        case (Some cb)
        have "cb = OnInitRejected" by (cases cb)
        then have "trace (settle_init r s) =
            trace s @ [ConsoleError [JStr ''Failed to initialize Tauri app:'', x]]"
          using Some \<open>init_promise s = Some p\<close> True Reject
          by (simp add: settle_init_def on_init_rejected_def console_error_def emit_def)
        then show ?thesis by simp
      qed
    qed
  qed
qed

lemma process_fields:
  "listeners (process p s) = listeners s \<and> escaped (process p s) = escaped s"
proof (cases p)
  case (InitSettled r)
  then show ?thesis by (simp add: settle_init_fields)
next
  case ContextMenu
  then show ?thesis
    using dispatch_fields [of "listeners s" contextmenu_event s]
    by (cases "dispatch (listeners s) contextmenu_event s")
       (simp add: dispatchEvent_def emit_def)
next
  case (UncaughtError x)
  then show ?thesis by (simp add: dispatchEvent_def dispatch_fields)
next
  case (UnhandledRejection x)
  then show ?thesis by (simp add: dispatchEvent_def dispatch_fields)
qed

lemma process_promise:
  "\<not> is_settlement p \<Longrightarrow> init_promise (process p s) = init_promise s"
proof (cases p)
  case ContextMenu
  then show ?thesis
    using dispatch_fields [of "listeners s" contextmenu_event s]
    by (cases "dispatch (listeners s) contextmenu_event s")
       (simp add: dispatchEvent_def emit_def)
qed (simp_all add: dispatchEvent_def dispatch_fields)

lemma process_trace:
  "\<exists>zs. trace (process p s) = trace s @ zs \<and> renders zs = [] \<and> invocations zs = []"
proof (cases p)
  case (InitSettled r)
  then show ?thesis by (simp add: settle_init_trace)
next
  case ContextMenu
  obtain zs where zs: "trace (snd (dispatchEvent contextmenu_event s)) = trace s @ zs"
      "renders zs = []" "invocations zs = []"
    using dispatch_trace [of "listeners s" contextmenu_event s]
    by (auto simp: dispatchEvent_def)
  show ?thesis
  proof (cases "defaultPrevented (fst (dispatchEvent contextmenu_event s))")
    case True
    then show ?thesis using ContextMenu zs by (auto split: prod.splits)
  next
    case False
    then have "trace (process p s) = trace s @ (zs @ [ShowContextMenu])"
      using ContextMenu zs by (auto simp: emit_def split: prod.splits)
    moreover have "renders (zs @ [ShowContextMenu]) = []"
        "invocations (zs @ [ShowContextMenu]) = []"
      by (simp_all add: renders_append invocations_append zs)
    ultimately show ?thesis by blast
  qed
next
  case (UncaughtError x)
  then show ?thesis using dispatch_trace [of "listeners s" "error_event x" s]
    by (simp add: dispatchEvent_def)
next
  case (UnhandledRejection x)
  then show ?thesis using dispatch_trace [of "listeners s" "unhandledrejection_event x" s]
    by (simp add: dispatchEvent_def)
qed

lemma run_Nil: "run [] s = s"
  by (simp add: run_def)

lemma run_Cons: "run (p # ps) s = run ps (process p s)"
  by (simp add: run_def)

lemma run_fields:
  "listeners (run ps s) = listeners s \<and> escaped (run ps s) = escaped s"
  by (induction ps arbitrary: s) (simp_all add: run_Nil run_Cons process_fields)

lemma run_promise:
  "\<forall>p \<in> set ps. \<not> is_settlement p \<Longrightarrow> init_promise (run ps s) = init_promise s"
  by (induction ps arbitrary: s) (simp_all add: run_Nil run_Cons process_promise)

lemma run_trace:
  "\<exists>zs. trace (run ps s) = trace s @ zs \<and> renders zs = [] \<and> invocations zs = []"
proof (induction ps arbitrary: s)
  case Nil
  show ?case by (simp add: run_Nil)
next
  case (Cons p ps)
  obtain zs where zs: "trace (process p s) = trace s @ zs" "renders zs = []"
      "invocations zs = []"
    using process_trace [of p s] by blast
  obtain ys where ys: "trace (run ps (process p s)) = trace (process p s) @ ys"
      "renders ys = []" "invocations ys = []"
    using Cons.IH [of "process p s"] by blast
  have "trace (run (p # ps) s) = trace s @ (zs @ ys)"
    by (simp add: run_Cons ys zs)
  moreover have "renders (zs @ ys) = []" "invocations (zs @ ys) = []"
    by (simp_all add: renders_append invocations_append ys zs)
  ultimately show ?case by blast
qed

lemma run_renders: "renders (trace (run ps s)) = renders (trace s)"
  using run_trace [of ps s] by (auto simp: renders_append)

lemma run_invocations: "invocations (trace (run ps s)) = invocations (trace s)"
  using run_trace [of ps s] by (auto simp: invocations_append)


subsection \<open>The state after startup\<close>

lemma startup_cases:
  obtains (present) n where "getElementById (document h) ''root'' = Some n"
      "''root'' \<in> set (document h)"
  | (absent) "getElementById (document h) ''root'' = None" "''root'' \<notin> set (document h)"
  using getElementById_None [of "document h" "''root''"]
  by (cases "getElementById (document h) ''root''") auto

lemma startup_invocations:
  "invocations (trace (startup h)) = (if isTauri h then [''init_app''] else [])"
proof (cases h rule: startup_cases)
  case (present n)
  show ?thesis
    by (simp add: startup_present [OF present(1)] main_present [OF present(1)])
next
  case absent
  show ?thesis
    by (simp add: startup_absent [OF absent(1)] main_absent [OF absent(1)])
qed

lemma startup_promise:
  "init_promise (startup h) =
     (if isTauri h then Some \<lparr> pstate = Pending, on_rejected = Some OnInitRejected \<rparr> else None)"
proof (cases h rule: startup_cases)
  case (present n)
  show ?thesis
    by (simp add: startup_present [OF present(1)] main_present [OF present(1)])
next
  case absent
  show ?thesis
    by (simp add: startup_absent [OF absent(1)] main_absent [OF absent(1)])
qed

lemma startup_listeners:
  assumes "''root'' \<in> set (document h)"
  shows "listeners (startup h) =
     (if \<not> js_truthy (env_DEV h) then [(Document, ''contextmenu'', OnContextMenu)] else [])
     @ [(Window, ''error'', OnError), (Window, ''unhandledrejection'', OnUnhandledRejection)]"
    and "escaped (startup h) = []"
proof -
  obtain n where n: "getElementById (document h) ''root'' = Some n"
    using assms getElementById_None [of "document h" "''root''"] by auto
  show "listeners (startup h) =
     (if \<not> js_truthy (env_DEV h) then [(Document, ''contextmenu'', OnContextMenu)] else [])
     @ [(Window, ''error'', OnError), (Window, ''unhandledrejection'', OnUnhandledRejection)]"
    by (simp add: startup_present [OF n] main_present [OF n])
  show "escaped (startup h) = []"
    by (simp add: startup_present [OF n] main_present [OF n])
qed

subsection \<open>Settling the promise and dispatching to the registered listeners\<close>

lemma settle_reject_pending:
  assumes "init_promise s = Some \<lparr> pstate = Pending, on_rejected = Some OnInitRejected \<rparr>"
  shows "settle_init (Reject x) s =
     s\<lparr> trace := trace s @ [ConsoleError [JStr ''Failed to initialize Tauri app:'', x]],
        init_promise := Some \<lparr> pstate = Rejected x, on_rejected = Some OnInitRejected \<rparr> \<rparr>"
  using assms
  by (simp add: settle_init_def on_init_rejected_def console_error_def emit_def)

lemma settle_resolve_pending:
  assumes "init_promise s = Some \<lparr> pstate = Pending, on_rejected = Some OnInitRejected \<rparr>"
  shows "settle_init (Resolve v) s =
     s\<lparr> init_promise := Some \<lparr> pstate = Fulfilled v, on_rejected = Some OnInitRejected \<rparr> \<rparr>"
  using assms by (simp add: settle_init_def)

lemma dispatch_guards:
  assumes "listeners s =
     (if P then [(Document, ''contextmenu'', OnContextMenu)] else [])
     @ [(Window, ''error'', OnError), (Window, ''unhandledrejection'', OnUnhandledRejection)]"
  shows "dispatchEvent (error_event x) s =
           (error_event x, emit (ConsoleError [JStr ''Global error:'', x]) s)"
    and "dispatchEvent (unhandledrejection_event r) s =
           (unhandledrejection_event r,
            emit (ConsoleError [JStr ''Unhandled promise rejection:'', r]) s)"
    and "dispatchEvent contextmenu_event s =
           (contextmenu_event\<lparr> defaultPrevented := P \<rparr>, s)"
  using assms
  by (simp_all add: dispatchEvent_def error_event_def unhandledrejection_event_def
      contextmenu_event_def on_error_def on_unhandledrejection_def on_contextmenu_def
      console_error_def)

section \<open>The specified properties of the startup sequence\<close>

text \<open>
  C1: when the bridge is present and the \<^verbatim>\<open>init_app\<close> promise, still pending after
  any occurrences \<open>ps\<close>, is rejected with a value \<open>E\<close>, the \<^verbatim>\<open>.catch\<close> callback
  appends exactly one \<^verbatim>\<open>console.error\<close> entry, whose second argument is \<open>E\<close>, and
  nothing else to the trace. The callback returns normally, the rejection adds
  no escaped exception and leaves the listeners alone, and when the anchor
  element exists the module body completes and no exception has escaped at all.
\<close>

theorem init_rejection_logged_once:
  assumes "isTauri h" and "\<forall>p \<in> set ps. \<not> is_settlement p"
  shows "let s = run ps (startup h); s' = process (InitSettled (Reject E)) s in
           console (trace s') = console (trace s) @ [[JStr ''Failed to initialize Tauri app:'', E]]
         \<and> trace s' = trace s @ [ConsoleError [JStr ''Failed to initialize Tauri app:'', E]]
         \<and> escaped s' = escaped s
         \<and> listeners s' = listeners s
         \<and> fst (call_rejection OnInitRejected E s) = Completed
         \<and> init_promise s' = Some \<lparr> pstate = Rejected E, on_rejected = Some OnInitRejected \<rparr>
         \<and> (''root'' \<in> set (document h) \<longrightarrow> fst (main h) = Completed \<and> escaped s' = [])"
proof -
  let ?s = "run ps (startup h)"
  have p: "init_promise ?s = Some \<lparr> pstate = Pending, on_rejected = Some OnInitRejected \<rparr>"
    using assms by (simp add: run_promise startup_promise)
  have e: "''root'' \<in> set (document h) \<Longrightarrow> fst (main h) = Completed \<and> escaped ?s = []"
  proof -
    assume r: "''root'' \<in> set (document h)"
    then obtain n where n: "getElementById (document h) ''root'' = Some n"
      using getElementById_None [of "document h" "''root''"] by auto
    show ?thesis
      using startup_listeners(2) [OF r] run_fields [of ps "startup h"]
      by (simp add: main_present [OF n])
  qed
  show ?thesis
    using e by (simp add: Let_def settle_reject_pending [OF p] console_append
        on_init_rejected_def)
qed



theorem init_rejection_logged_once_witness:
  "isTauri desktop_host \<and> \<not> is_settlement ContextMenu \<and>
   ''root'' \<in> set (document desktop_host) \<and>
   console (trace (process (InitSettled (Reject (JStr ''denied'')))
      (run [ContextMenu] (startup desktop_host))))
    = console (trace (run [ContextMenu] (startup desktop_host)))
      @ [[JStr ''Failed to initialize Tauri app:'', JStr ''denied'']] \<and>
   escaped (process (InitSettled (Reject (JStr ''denied'')))
      (run [ContextMenu] (startup desktop_host))) = []"
proof -
  have a: "isTauri desktop_host" by (simp add: isTauri_def desktop_host_def)
  have b: "\<forall>p \<in> set [ContextMenu]. \<not> is_settlement p" by simp
  have c: "''root'' \<in> set (document desktop_host)" by (simp add: desktop_host_def)
  note t = init_rejection_logged_once [OF a b, of "JStr ''denied''", unfolded Let_def]
  have d: "console (trace (process (InitSettled (Reject (JStr ''denied'')))
      (run [ContextMenu] (startup desktop_host))))
    = console (trace (run [ContextMenu] (startup desktop_host)))
      @ [[JStr ''Failed to initialize Tauri app:'', JStr ''denied'']]"
    using t by (rule conjunct1)
  have e: "escaped (process (InitSettled (Reject (JStr ''denied'')))
      (run [ContextMenu] (startup desktop_host))) = []"
    using t c by (elim conjE) (erule (1) impE, erule conjunct2)
  have b': "\<not> is_settlement ContextMenu" by simp
  show ?thesis using a b' c d e by (intro conjI)
qed

text \<open>
  C2: when \<^verbatim>\<open>window.__TAURI__\<close> is undefined, no \<^verbatim>\<open>invoke\<close> call is ever made,
  during startup or after it; and whenever a call was made, the bridge check
  was true and the only command issued is \<^verbatim>\<open>init_app\<close>.
\<close>

theorem no_bridge_no_init:
  "(window_TAURI h = Undefined \<longrightarrow> invocations (trace (run ps (startup h))) = []) \<and>
   (invocations (trace (run ps (startup h))) \<noteq> [] \<longrightarrow>
      isTauri h \<and> invocations (trace (run ps (startup h))) = [''init_app''])"
  by (simp add: run_invocations startup_invocations isTauri_def)


theorem no_bridge_no_init_witness:
  "window_TAURI browser_host = Undefined \<and>
   invocations (trace (run [UncaughtError Null] (startup browser_host))) = [] \<and>
   invocations (trace (run [UncaughtError Null] (startup desktop_host))) \<noteq> [] \<and>
   isTauri desktop_host"
proof -
  have a: "window_TAURI browser_host = Undefined" by (simp add: browser_host_def)
  have b: "invocations (trace (run [UncaughtError Null] (startup browser_host))) = []"
    using no_bridge_no_init [of browser_host "[UncaughtError Null]"] a by (elim conjE) (erule (1) impE)
  have c: "invocations (trace (run [UncaughtError Null] (startup desktop_host))) \<noteq> []"
    by (simp add: run_invocations startup_invocations isTauri_def desktop_host_def)
  have d: "isTauri desktop_host"
    using no_bridge_no_init [of desktop_host "[UncaughtError Null]"] c
    by (elim conjE) (erule (1) impE, erule conjunct1)
  show ?thesis using a b c d by (intro conjI)
qed

text \<open>
  C3: with the bridge present and the anchor element found, the calls of the
  startup begin with the dispatch of \<^verbatim>\<open>init_app\<close> and the attachment of its
  \<^verbatim>\<open>.catch\<close> callback, directly followed by the three calls of the mount;
  whatever happens later, the settlement of the promise included, is recorded
  after them. At the end of the startup the promise is still pending and
  nothing has been logged.
\<close>

theorem mount_follows_dispatch:
  assumes "isTauri h" and "getElementById (document h) ''root'' = Some n"
  shows "(\<exists>zs. trace (run ps (startup h)) =
            [Invoke ''init_app'', Catch OnInitRejected, GetElementById ''root'',
             CreateRoot (Some n), Render n app_tree] @ zs)
       \<and> init_promise (startup h) =
            Some \<lparr> pstate = Pending, on_rejected = Some OnInitRejected \<rparr>
       \<and> console (trace (startup h)) = []"
proof -
  obtain zs where zs: "trace (run ps (startup h)) = trace (startup h) @ zs"
    using run_trace [of ps "startup h"] by blast
  have t: "trace (startup h) =
      [Invoke ''init_app'', Catch OnInitRejected, GetElementById ''root'',
       CreateRoot (Some n), Render n app_tree]
      @ ((if \<not> js_truthy (env_DEV h)
          then [AddEventListener Document ''contextmenu'' OnContextMenu] else [])
         @ [AddEventListener Window ''error'' OnError,
            AddEventListener Window ''unhandledrejection'' OnUnhandledRejection])"
    using assms(1) by (simp add: startup_present [OF assms(2)] main_present [OF assms(2)])
  have "trace (run ps (startup h)) =
      [Invoke ''init_app'', Catch OnInitRejected, GetElementById ''root'',
       CreateRoot (Some n), Render n app_tree]
      @ (((if \<not> js_truthy (env_DEV h)
          then [AddEventListener Document ''contextmenu'' OnContextMenu] else [])
         @ [AddEventListener Window ''error'' OnError,
            AddEventListener Window ''unhandledrejection'' OnUnhandledRejection]) @ zs)"
    unfolding zs t by (simp only: append_assoc)
  then have "\<exists>zs. trace (run ps (startup h)) =
            [Invoke ''init_app'', Catch OnInitRejected, GetElementById ''root'',
             CreateRoot (Some n), Render n app_tree] @ zs" by (rule exI)
  moreover have "init_promise (startup h) =
            Some \<lparr> pstate = Pending, on_rejected = Some OnInitRejected \<rparr>"
    using assms(1) by (simp add: startup_promise)
  moreover have "console (trace (startup h)) = []"
    by (simp add: startup_present [OF assms(2)] main_present [OF assms(2)] console_append)
  ultimately show ?thesis by (intro conjI)
qed

theorem mount_follows_dispatch_witness:
  "isTauri desktop_host \<and> getElementById (document desktop_host) ''root'' = Some 0 \<and>
   (\<exists>zs. trace (run [InitSettled (Reject Null)] (startup desktop_host)) =
            [Invoke ''init_app'', Catch OnInitRejected, GetElementById ''root'',
             CreateRoot (Some 0), Render 0 app_tree] @ zs)"
proof -
  have a: "isTauri desktop_host" by (simp add: isTauri_def desktop_host_def)
  have b: "getElementById (document desktop_host) ''root'' = Some 0"
    by (simp add: desktop_host_def)
  show ?thesis
    using a b mount_follows_dispatch [OF a b, of "[InitSettled (Reject Null)]", THEN conjunct1]
    by (intro conjI)
qed

text \<open>
  C4: after a completed startup and any later occurrences, a
  \<^verbatim>\<open>contextmenu\<close> event leaves the dispatch with its default action prevented
  exactly when \<^verbatim>\<open>import.meta.env.DEV\<close> is falsy: in a production build the
  menu is never shown, in a development build it is.
\<close>

theorem context_menu_suppressed_in_production:
  assumes "''root'' \<in> set (document h)"
  shows "let s = run ps (startup h) in
           defaultPrevented (fst (dispatchEvent contextmenu_event s)) = (\<not> js_truthy (env_DEV h))
         \<and> process ContextMenu s = (if \<not> js_truthy (env_DEV h) then s else emit ShowContextMenu s)"
proof -
  let ?s = "run ps (startup h)"
  have l: "listeners ?s =
     (if \<not> js_truthy (env_DEV h) then [(Document, ''contextmenu'', OnContextMenu)] else [])
     @ [(Window, ''error'', OnError), (Window, ''unhandledrejection'', OnUnhandledRejection)]"
    using startup_listeners(1) [OF assms] run_fields [of ps "startup h"] by simp
  show ?thesis
    by (simp add: Let_def dispatch_guards(3) [OF l])
qed

theorem context_menu_suppressed_in_production_witness:
  "''root'' \<in> set (document desktop_host) \<and> \<not> js_truthy (env_DEV desktop_host) \<and>
   defaultPrevented (fst (dispatchEvent contextmenu_event (run [ContextMenu] (startup desktop_host)))) \<and>
   ''root'' \<in> set (document browser_host) \<and> js_truthy (env_DEV browser_host) \<and>
   \<not> defaultPrevented (fst (dispatchEvent contextmenu_event (run [ContextMenu] (startup browser_host))))"
proof -
  have a: "''root'' \<in> set (document desktop_host)" by (simp add: desktop_host_def)
  have b: "''root'' \<in> set (document browser_host)" by (simp add: browser_host_def)
  have c: "\<not> js_truthy (env_DEV desktop_host)" by (simp add: desktop_host_def)
  have d: "js_truthy (env_DEV browser_host)" by (simp add: browser_host_def)
  show ?thesis
    using a b c d
      context_menu_suppressed_in_production [OF a, of "[ContextMenu]", unfolded Let_def, THEN conjunct1]
      context_menu_suppressed_in_production [OF b, of "[ContextMenu]", unfolded Let_def, THEN conjunct1]
    by simp
qed


text \<open>
  C5: the toast options have a duration of 4000, a success accent colour that
  differs from the error accent colour, and one secondary colour for both.
  Every tree ever rendered carries exactly one \<^verbatim>\<open>Toaster\<close>, with these
  options, and there is at most one render during the whole run, so the
  options are built once and no later occurrence changes them.
\<close>

theorem toast_options_fixed:
  "duration toastOptions = 4000 \<and>
   primary (iconTheme (success toastOptions)) \<noteq> primary (iconTheme (error toastOptions)) \<and>
   secondary (iconTheme (success toastOptions)) = secondary (iconTheme (error toastOptions)) \<and>
   (\<forall>(n, t) \<in> set (renders (trace (run ps (startup h)))).
      toaster_props t = [(''top-right'', toastOptions)]) \<and>
   length (renders (trace (run ps (startup h)))) \<le> 1"
proof -
  have r: "renders (trace (startup h)) = [] \<or>
      (\<exists>n. renders (trace (startup h)) = [(n, app_tree)])"
  proof (cases h rule: startup_cases)
    case (present n)
    show ?thesis
      by (simp add: startup_present [OF present(1)] main_present [OF present(1)] renders_append)
  next
    case absent
    show ?thesis
      by (simp add: startup_absent [OF absent(1)] main_absent [OF absent(1)] renders_append)
  qed
  have p: "toaster_props app_tree = [(''top-right'', toastOptions)]"
    by (simp add: app_tree_def)
  show ?thesis
    using r p by (auto simp: run_renders toastOptions_def)
qed

theorem toast_options_fixed_witness:
  "(0, app_tree) \<in> set (renders (trace (run [ContextMenu] (startup desktop_host)))) \<and>
   toaster_props app_tree = [(''top-right'', toastOptions)] \<and>
   duration toastOptions = 4000"
proof -
  have b: "getElementById (document desktop_host) ''root'' = Some 0"
    by (simp add: desktop_host_def)
  have a: "(0, app_tree) \<in> set (renders (trace (run [ContextMenu] (startup desktop_host))))"
    by (simp add: run_renders startup_present [OF b] main_present [OF b] renders_append)
  show ?thesis
    using a toast_options_fixed [of "[ContextMenu]" desktop_host] by blast
qed

text \<open>
  C6: after a completed startup and any later occurrences, an uncaught error
  and an unhandled rejection each change the state by exactly one appended
  \<^verbatim>\<open>console.error\<close> entry, carrying the error or the reason; listeners,
  promise and escaped exceptions stay as they were, the two listeners return
  normally, and no exception has escaped.
\<close>

theorem global_guards_log_once:
  assumes "''root'' \<in> set (document h)"
  shows "let s = run ps (startup h) in
           process (UncaughtError x) s = emit (ConsoleError [JStr ''Global error:'', x]) s
         \<and> process (UnhandledRejection r) s =
             emit (ConsoleError [JStr ''Unhandled promise rejection:'', r]) s
         \<and> console (trace (process (UncaughtError x) s)) =
             console (trace s) @ [[JStr ''Global error:'', x]]
         \<and> console (trace (process (UnhandledRejection r) s)) =
             console (trace s) @ [[JStr ''Unhandled promise rejection:'', r]]
         \<and> fst (call_listener OnError e s) = Completed
         \<and> fst (call_listener OnUnhandledRejection e s) = Completed
         \<and> escaped (process (UncaughtError x) s) = []
         \<and> escaped (process (UnhandledRejection r) s) = []"
proof -
  let ?s = "run ps (startup h)"
  have l: "listeners ?s =
     (if \<not> js_truthy (env_DEV h) then [(Document, ''contextmenu'', OnContextMenu)] else [])
     @ [(Window, ''error'', OnError), (Window, ''unhandledrejection'', OnUnhandledRejection)]"
    using startup_listeners(1) [OF assms] run_fields [of ps "startup h"] by simp
  have e: "escaped ?s = []"
    using startup_listeners(2) [OF assms] run_fields [of ps "startup h"] by simp
  show ?thesis
    by (simp add: Let_def dispatch_guards(1,2) [OF l] emit_def console_append e
        on_error_def on_unhandledrejection_def)
qed

theorem global_guards_log_once_witness:
  "''root'' \<in> set (document desktop_host) \<and>
   console (trace (process (UncaughtError (JStr ''crash'')) (run [] (startup desktop_host)))) =
     console (trace (run [] (startup desktop_host))) @ [[JStr ''Global error:'', JStr ''crash'']]"
proof -
  have a: "''root'' \<in> set (document desktop_host)" by (simp add: desktop_host_def)
  show ?thesis
    using a global_guards_log_once [OF a, of "[]" "JStr ''crash''", unfolded Let_def]
    by blast
qed

text \<open>
  C7: when the bridge is present and the pending \<^verbatim>\<open>init_app\<close> promise is
  fulfilled, the diagnostic log is unchanged: the only change of the state is
  that the promise is fulfilled.
\<close>

theorem init_success_silent:
  assumes "isTauri h" and "\<forall>p \<in> set ps. \<not> is_settlement p"
  shows "let s = run ps (startup h); s' = process (InitSettled (Resolve v)) s in
           console (trace s') = console (trace s)
         \<and> s' = s\<lparr> init_promise :=
                     Some \<lparr> pstate = Fulfilled v, on_rejected = Some OnInitRejected \<rparr> \<rparr>"
proof -
  let ?s = "run ps (startup h)"
  have p: "init_promise ?s = Some \<lparr> pstate = Pending, on_rejected = Some OnInitRejected \<rparr>"
    using assms by (simp add: run_promise startup_promise)
  show ?thesis
    by (simp add: Let_def settle_resolve_pending [OF p])
qed

theorem init_success_silent_witness:
  "isTauri desktop_host \<and> \<not> is_settlement (UncaughtError Null) \<and>
   console (trace (process (InitSettled (Resolve (JNum 1)))
      (run [UncaughtError Null] (startup desktop_host))))
    = console (trace (run [UncaughtError Null] (startup desktop_host)))"
proof -
  have a: "isTauri desktop_host" by (simp add: isTauri_def desktop_host_def)
  have b: "\<forall>p \<in> set [UncaughtError Null]. \<not> is_settlement p" by simp
  have b': "\<not> is_settlement (UncaughtError Null)" by simp
  show ?thesis
    using a b' init_success_silent [OF a b, of "JNum 1", unfolded Let_def, THEN conjunct1]
    by (intro conjI)
qed


text \<open>
  C8: the mount looks up the id \<^verbatim>\<open>root\<close> and passes the result to
  \<^verbatim>\<open>createRoot\<close> unchecked. When exactly one element has that id, the module
  body completes and the tree is rendered into that element exactly once, in
  the whole run. When no element has it, \<^verbatim>\<open>createRoot\<close> is called with
  \<^verbatim>\<open>null\<close>, its exception leaves the module body uncaught, and nothing is
  ever rendered.
\<close>

theorem mount_on_root:
  "(count_list (document h) ''root'' = 1 \<longrightarrow>
      (\<exists>n < length (document h). document h ! n = ''root'' \<and> fst (main h) = Completed \<and>
         renders (trace (run ps (startup h))) = [(n, app_tree)])) \<and>
   (''root'' \<notin> set (document h) \<longrightarrow>
      fst (main h) = Threw (JStr ''createRoot(...): Target container is not a DOM element.'') \<and>
      CreateRoot None \<in> set (trace (startup h)) \<and>
      renders (trace (run ps (startup h))) = [] \<and>
      escaped (run ps (startup h)) =
        [JStr ''createRoot(...): Target container is not a DOM element.'']) \<and>
   GetElementById ''root'' \<in> set (trace (startup h))"
proof (cases h rule: startup_cases)
  case (present n)
  have c: "count_list (document h) ''root'' \<noteq> 0"
    using present(2) by (simp add: count_list_0_iff)
  have n: "n < length (document h) \<and> document h ! n = ''root''"
    using getElementById_Some [OF present(1)] .
  have m: "fst (main h) = Completed"
    by (simp add: main_present [OF present(1)])
  have r: "renders (trace (run ps (startup h))) = [(n, app_tree)]"
    by (simp add: run_renders startup_present [OF present(1)] main_present [OF present(1)]
        renders_append)
  have g: "GetElementById ''root'' \<in> set (trace (startup h))"
    by (simp add: startup_present [OF present(1)] main_present [OF present(1)])
  show ?thesis using present(2) n m r g by blast
next
  case absent
  have c: "count_list (document h) ''root'' = 0"
    using absent(2) by (simp add: count_list_0_iff)
  have m: "fst (main h) = Threw (JStr ''createRoot(...): Target container is not a DOM element.'')"
    by (simp add: main_absent [OF absent(1)])
  have t: "CreateRoot None \<in> set (trace (startup h))"
      "GetElementById ''root'' \<in> set (trace (startup h))"
    by (simp_all add: startup_absent [OF absent(1)] main_absent [OF absent(1)])
  have r: "renders (trace (run ps (startup h))) = []"
    by (simp add: run_renders startup_absent [OF absent(1)] main_absent [OF absent(1)]
        renders_append)
  have e: "escaped (run ps (startup h)) =
        [JStr ''createRoot(...): Target container is not a DOM element.'']"
    using run_fields [of ps "startup h"]
    by (simp add: startup_absent [OF absent(1)])
  show ?thesis using c m t r e by simp
qed

theorem mount_on_root_witness:
  "count_list (document desktop_host) ''root'' = 1 \<and>
   (\<exists>n < length (document desktop_host). document desktop_host ! n = ''root'' \<and>
      fst (main desktop_host) = Completed \<and>
      renders (trace (run [ContextMenu] (startup desktop_host))) = [(n, app_tree)]) \<and>
   ''root'' \<notin> set (document bare_host) \<and>
   fst (main bare_host) = Threw (JStr ''createRoot(...): Target container is not a DOM element.'') \<and>
   renders (trace (run [ContextMenu] (startup bare_host))) = []"
proof -
  have a: "count_list (document desktop_host) ''root'' = 1" by (simp add: desktop_host_def)
  have b: "''root'' \<notin> set (document bare_host)" by (simp add: bare_host_def)
  show ?thesis
    using a b mount_on_root [of desktop_host "[ContextMenu]"]
      mount_on_root [of bare_host "[ContextMenu]"]
    by blast
qed

text \<open>
  C9: for every value of \<^verbatim>\<open>window.__TAURI__\<close> other than \<^verbatim>\<open>undefined\<close>, such as
  \<^verbatim>\<open>null\<close>, \<^verbatim>\<open>false\<close>, \<^verbatim>\<open>0\<close> or an empty object, the bridge check is true
  and \<^verbatim>\<open>init_app\<close> is issued; for \<^verbatim>\<open>undefined\<close> the check is false and
  nothing is issued.
\<close>

theorem bridge_present_unless_undefined:
  "(v \<noteq> Undefined \<longrightarrow>
      isTauri (h\<lparr> window_TAURI := v \<rparr>) \<and>
      invocations (trace (run ps (startup (h\<lparr> window_TAURI := v \<rparr>)))) = [''init_app'']) \<and>
   \<not> isTauri (h\<lparr> window_TAURI := Undefined \<rparr>) \<and>
   invocations (trace (run ps (startup (h\<lparr> window_TAURI := Undefined \<rparr>)))) = []"
  by (simp add: run_invocations startup_invocations isTauri_def)

theorem bridge_present_unless_undefined_witness:
  "Null \<noteq> Undefined \<and> isTauri (browser_host\<lparr> window_TAURI := Null \<rparr>) \<and>
   JBool False \<noteq> Undefined \<and> isTauri (browser_host\<lparr> window_TAURI := JBool False \<rparr>) \<and>
   JNum 0 \<noteq> Undefined \<and> isTauri (browser_host\<lparr> window_TAURI := JNum 0 \<rparr>) \<and>
   JObj [] \<noteq> Undefined \<and> isTauri (browser_host\<lparr> window_TAURI := JObj [] \<rparr>) \<and>
   invocations (trace (run [] (startup (browser_host\<lparr> window_TAURI := Null \<rparr>)))) = [''init_app'']"
proof -
  have a: "Null \<noteq> Undefined" "JBool False \<noteq> Undefined" "JNum 0 \<noteq> Undefined"
      "JObj [] \<noteq> Undefined"
    by simp_all
  show ?thesis
    using a
      bridge_present_unless_undefined [of Null browser_host "[]"]
      bridge_present_unless_undefined [of "JBool False" browser_host "[]"]
      bridge_present_unless_undefined [of "JNum 0" browser_host "[]"]
      bridge_present_unless_undefined [of "JObj []" browser_host "[]"]
    by blast
qed

text \<open>
  C10: a completed startup makes its calls in this order: the bridge's
  dispatch (if any), the mount, and only then the registrations, the last two
  of which are the \<^verbatim>\<open>error\<close> and \<^verbatim>\<open>unhandledrejection\<close> listeners on the window.
  No call before the first registration is a registration, and the two
  listeners are the last entries of the listener list for the rest of the run.
  When the mount throws, no listener has been registered: the exception escapes
  unlogged, the listener list stays empty for the rest of the run, and a later
  uncaught error changes nothing.
\<close>

theorem guards_registered_last:
  "(getElementById (document h) ''root'' = Some n \<longrightarrow>
      trace (startup h) =
        ((if isTauri h then [Invoke ''init_app'', Catch OnInitRejected] else [])
         @ [GetElementById ''root'', CreateRoot (Some n), Render n app_tree])
        @ ((if \<not> js_truthy (env_DEV h)
            then [AddEventListener Document ''contextmenu'' OnContextMenu] else [])
           @ [AddEventListener Window ''error'' OnError,
              AddEventListener Window ''unhandledrejection'' OnUnhandledRejection]) \<and>
      takeWhile (\<lambda>a. \<not> is_registration a) (trace (startup h)) =
        (if isTauri h then [Invoke ''init_app'', Catch OnInitRejected] else [])
        @ [GetElementById ''root'', CreateRoot (Some n), Render n app_tree] \<and>
      dropWhile (\<lambda>a. \<not> is_registration a) (trace (startup h)) =
        (if \<not> js_truthy (env_DEV h)
         then [AddEventListener Document ''contextmenu'' OnContextMenu] else [])
        @ [AddEventListener Window ''error'' OnError,
           AddEventListener Window ''unhandledrejection'' OnUnhandledRejection] \<and>
      listeners (run ps (startup h)) =
        (if \<not> js_truthy (env_DEV h) then [(Document, ''contextmenu'', OnContextMenu)] else [])
        @ [(Window, ''error'', OnError), (Window, ''unhandledrejection'', OnUnhandledRejection)]) \<and>
   (''root'' \<notin> set (document h) \<longrightarrow>
      escaped (startup h) = [JStr ''createRoot(...): Target container is not a DOM element.''] \<and>
      console (trace (startup h)) = [] \<and>
      listeners (run ps (startup h)) = [] \<and>
      process (UncaughtError x) (run ps (startup h)) = run ps (startup h))"
proof (cases h rule: startup_cases)
  case (present k)
  have t: "trace (startup h) =
        ((if isTauri h then [Invoke ''init_app'', Catch OnInitRejected] else [])
         @ [GetElementById ''root'', CreateRoot (Some k), Render k app_tree])
        @ ((if \<not> js_truthy (env_DEV h)
            then [AddEventListener Document ''contextmenu'' OnContextMenu] else [])
           @ [AddEventListener Window ''error'' OnError,
              AddEventListener Window ''unhandledrejection'' OnUnhandledRejection])"
    by (simp add: startup_present [OF present(1)] main_present [OF present(1)])
  have tw: "takeWhile (\<lambda>a. \<not> is_registration a) (trace (startup h)) =
        (if isTauri h then [Invoke ''init_app'', Catch OnInitRejected] else [])
        @ [GetElementById ''root'', CreateRoot (Some k), Render k app_tree]"
    by (simp add: startup_present [OF present(1)] main_present [OF present(1)])
  have dw: "dropWhile (\<lambda>a. \<not> is_registration a) (trace (startup h)) =
        (if \<not> js_truthy (env_DEV h)
         then [AddEventListener Document ''contextmenu'' OnContextMenu] else [])
        @ [AddEventListener Window ''error'' OnError,
           AddEventListener Window ''unhandledrejection'' OnUnhandledRejection]"
    by (simp add: startup_present [OF present(1)] main_present [OF present(1)])
  have l: "listeners (run ps (startup h)) =
        (if \<not> js_truthy (env_DEV h) then [(Document, ''contextmenu'', OnContextMenu)] else [])
        @ [(Window, ''error'', OnError), (Window, ''unhandledrejection'', OnUnhandledRejection)]"
    using startup_listeners(1) [OF present(2)] run_fields [of ps "startup h"] by simp
  have "n = k" if "getElementById (document h) ''root'' = Some n"
    using that present(1) by simp
  then show ?thesis using present(2) t tw dw l by blast
next
  case absent
  have l: "listeners (run ps (startup h)) = []"
    using run_fields [of ps "startup h"]
    by (simp add: startup_absent [OF absent(1)] main_absent [OF absent(1)])
  have p: "process (UncaughtError x) (run ps (startup h)) = run ps (startup h)"
    by (simp add: dispatchEvent_def l)
  have e: "escaped (startup h) = [JStr ''createRoot(...): Target container is not a DOM element.'']"
      "console (trace (startup h)) = []"
    by (simp_all add: startup_absent [OF absent(1)] main_absent [OF absent(1)] console_append)
  show ?thesis using absent l p e by simp
qed

theorem guards_registered_last_witness:
  "getElementById (document desktop_host) ''root'' = Some 0 \<and>
   trace (startup desktop_host) =
     [Invoke ''init_app'', Catch OnInitRejected,
      GetElementById ''root'', CreateRoot (Some 0), Render 0 app_tree,
      AddEventListener Document ''contextmenu'' OnContextMenu,
      AddEventListener Window ''error'' OnError,
      AddEventListener Window ''unhandledrejection'' OnUnhandledRejection] \<and>
   listeners (run [ContextMenu] (startup desktop_host)) =
     [(Document, ''contextmenu'', OnContextMenu), (Window, ''error'', OnError),
      (Window, ''unhandledrejection'', OnUnhandledRejection)] \<and>
   ''root'' \<notin> set (document bare_host) \<and>
   console (trace (startup bare_host)) = [] \<and>
   listeners (run [ContextMenu] (startup bare_host)) = []"
proof -
  have a: "getElementById (document desktop_host) ''root'' = Some 0"
    by (simp add: desktop_host_def)
  have b: "''root'' \<notin> set (document bare_host)" by (simp add: bare_host_def)
  have c: "isTauri desktop_host" "\<not> js_truthy (env_DEV desktop_host)"
    by (simp_all add: isTauri_def desktop_host_def)
  have d: "trace (startup desktop_host) =
     [Invoke ''init_app'', Catch OnInitRejected,
      GetElementById ''root'', CreateRoot (Some 0), Render 0 app_tree,
      AddEventListener Document ''contextmenu'' OnContextMenu,
      AddEventListener Window ''error'' OnError,
      AddEventListener Window ''unhandledrejection'' OnUnhandledRejection] \<and>
   listeners (run [ContextMenu] (startup desktop_host)) =
     [(Document, ''contextmenu'', OnContextMenu), (Window, ''error'', OnError),
      (Window, ''unhandledrejection'', OnUnhandledRejection)]"
    using a c guards_registered_last [of desktop_host 0 "[ContextMenu]"] by simp
  have e: "console (trace (startup bare_host)) = [] \<and>
      listeners (run [ContextMenu] (startup bare_host)) = []"
    using b guards_registered_last [of bare_host 0 "[ContextMenu]"] by blast
  show ?thesis using a b d e by blast
qed

end
